theory Spec2Isabelle
  imports Main "HOL-Library.Sublist"
begin

section \<open>Python values used by galaxy.py\<close>

text \<open>
  The module is Python 2 code: the output of \<^verbatim>\<open>p3.stdout.read()\<close> is used directly as
  a \<^verbatim>\<open>str\<close>, so strings are byte strings and are modelled by \<^typ>\<open>string\<close>. A value that
  may be \<^verbatim>\<open>None\<close> (an unset environment variable) is a \<^typ>\<open>string option\<close>.

  Exceptions are values. \<open>NoPort\<close> and \<open>CouldNotConnect\<close> are the two
  \<^verbatim>\<open>raise Exception(...)\<close> statements of \<^verbatim>\<open>get_galaxy_connection\<close> (lines 100 and 114);
  \<open>NameError\<close>, \<open>KeyError\<close>, \<open>TypeError\<close> and \<open>AttributeError\<close> are raised by the
  interpreter; \<open>Foreign c\<close> is an exception of class \<open>c\<close> raised by a collaborator
  (\<^verbatim>\<open>subprocess\<close>, \<^verbatim>\<open>bioblend\<close>). Only instances of \<^verbatim>\<open>Exception\<close> are modelled.
\<close>

datatype exn =
    NoPort
  | CouldNotConnect
  | NameError string
  | KeyError string
  | TypeError
  | AttributeError
  | Foreign string

subsection \<open>String methods\<close>

text \<open>\<^verbatim>\<open>str.lower\<close> on a byte string: the letters A-Z are mapped to a-z.\<close>

definition lower_char :: "char \<Rightarrow> char" where
  "lower_char c =
     (case map_of (zip ''ABCDEFGHIJKLMNOPQRSTUVWXYZ'' ''abcdefghijklmnopqrstuvwxyz'') c of
        Some d \<Rightarrow> d
      | None \<Rightarrow> c)"

definition lower :: "string \<Rightarrow> string" where
  "lower s = map lower_char s"

text \<open>\<^verbatim>\<open>s.rstrip(chars)\<close>, \<^verbatim>\<open>s.lstrip(chars)\<close>: drop the characters of \<open>chars\<close> at one end.\<close>

definition rstrip :: "string \<Rightarrow> string \<Rightarrow> string" where
  "rstrip chars s = rev (dropWhile (\<lambda>c. c \<in> set chars) (rev s))"

definition lstrip :: "string \<Rightarrow> string \<Rightarrow> string" where
  "lstrip chars s = dropWhile (\<lambda>c. c \<in> set chars) s"

text \<open>\<^verbatim>\<open>string.whitespace\<close>: space, tab, newline, carriage return, vertical tab, form feed.\<close>

definition whitespace :: string where
  "whitespace = [CHR '' '', CHR 0x09, CHR 0x0A, CHR 0x0D, CHR 0x0B, CHR 0x0C]"

text \<open>\<^verbatim>\<open>s.strip()\<close> without argument strips whitespace at both ends.\<close>

definition strip :: "string \<Rightarrow> string" where
  "strip s = rstrip whitespace (lstrip whitespace s)"

text \<open>\<^verbatim>\<open>s.split(sep)\<close> with a one-character separator: always at least one field.\<close>

fun split :: "char \<Rightarrow> string \<Rightarrow> string list" where
  "split sep [] = [[]]"
| "split sep (c # cs) =
     (if c = sep then [] # split sep cs
      else (case split sep cs of
              [] \<Rightarrow> [[c]]
            | w # ws \<Rightarrow> (c # w) # ws))"

text \<open>\<^verbatim>\<open>''.join(xs)\<close>: the fields are concatenated with nothing between them.\<close>

definition join_empty :: "string list \<Rightarrow> string" where
  "join_empty xs = concat xs"

text \<open>The conversion \<^verbatim>\<open>'%s' % v\<close> of a string or \<^verbatim>\<open>None\<close>.\<close>

definition percent_s :: "string option \<Rightarrow> string" where
  "percent_s v = (case v of None \<Rightarrow> ''None'' | Some s \<Rightarrow> s)"

subsection \<open>string.Template.safe_substitute\<close>

text \<open>
  The pattern of \<^verbatim>\<open>string.Template\<close> is the delimiter \<^verbatim>\<open>$\<close> followed by one of, in
  this order: a second \<^verbatim>\<open>$\<close> (group \<^verbatim>\<open>escaped\<close>); an identifier
  \<^verbatim>\<open>[_a-z][_a-z0-9]*\<close>, case-insensitive and greedy (group \<^verbatim>\<open>named\<close>); an identifier
  in braces (group \<^verbatim>\<open>braced\<close>); nothing (group \<^verbatim>\<open>invalid\<close>). \<^verbatim>\<open>safe_substitute\<close>
  replaces every match: a name found in the mapping by its value, a name not found by
  the matched text, an escape by one \<^verbatim>\<open>$\<close>, an invalid delimiter by itself.
\<close>

definition id_start :: "char \<Rightarrow> bool" where
  "id_start c \<longleftrightarrow>
     (let n = (of_char c :: nat) in n = 95 \<or> (97 \<le> n \<and> n \<le> 122) \<or> (65 \<le> n \<and> n \<le> 90))"

definition id_char :: "char \<Rightarrow> bool" where
  "id_char c \<longleftrightarrow> id_start c \<or> (let n = (of_char c :: nat) in 48 \<le> n \<and> n \<le> 57)"

text \<open>A whole string that matches the identifier pattern.\<close>

definition is_identifier :: "string \<Rightarrow> bool" where
  "is_identifier name \<longleftrightarrow> name \<noteq> [] \<and> id_start (hd name) \<and> list_all id_char name"

text \<open>
  \<open>braced cs\<close> matches \<^verbatim>\<open>{identifier}\<close> at the head of \<open>cs\<close> and returns the
  identifier and the text after the closing brace.
\<close>

definition braced :: "string \<Rightarrow> (string \<times> string) option" where
  "braced cs =
     (case cs of
        [] \<Rightarrow> None
      | b # ds \<Rightarrow>
          if b = CHR ''{'' \<and> ds \<noteq> [] \<and> id_start (hd ds) then
            (case dropWhile id_char ds of
               [] \<Rightarrow> None
             | e # rest \<Rightarrow> if e = CHR ''}'' then Some (takeWhile id_char ds, rest) else None)
          else None)"

lemma braced_shorter:
  "braced cs = Some (name, rest) \<Longrightarrow> length rest < length cs"
proof -
  assume a: "braced cs = Some (name, rest)"
  then obtain b ds e where cs: "cs = b # ds" and dw: "dropWhile id_char ds = e # rest"
    by (auto simp: braced_def split: list.splits if_splits)
  have "length (dropWhile id_char ds) \<le> length ds"
    by (rule length_dropWhile_le)
  with dw cs show ?thesis by simp
qed

function substitute :: "(string \<rightharpoonup> string) \<Rightarrow> string \<Rightarrow> string" where
  "substitute m [] = []"
| "substitute m (c # cs) =
     (if c \<noteq> CHR ''$'' then c # substitute m cs
      else if cs \<noteq> [] \<and> hd cs = CHR ''$'' then CHR ''$'' # substitute m (tl cs)
      else if cs \<noteq> [] \<and> id_start (hd cs) then
        (case m (takeWhile id_char cs) of
           Some v \<Rightarrow> v
         | None \<Rightarrow> CHR ''$'' # takeWhile id_char cs) @ substitute m (dropWhile id_char cs)
      else
        (case braced cs of
           Some (name, rest) \<Rightarrow>
             (case m name of
                Some v \<Rightarrow> v
              | None \<Rightarrow> CHR ''$'' # CHR ''{'' # name @ ''}'') @ substitute m rest
         | None \<Rightarrow> CHR ''$'' # substitute m cs))"
  by pat_completeness auto
termination
  by (relation "measure (\<lambda>(m, s). length s)")
    (auto simp: less_Suc_eq_le length_dropWhile_le dest: braced_shorter)

text \<open>
  \<^verbatim>\<open>Template(t).safe_substitute(m)\<close>: the constructor stores any object; the
  substitution applies the regular expression to it and raises \<^verbatim>\<open>TypeError\<close> when it
  is \<^verbatim>\<open>None\<close>.
\<close>

definition safe_substitute :: "string option \<Rightarrow> (string \<rightharpoonup> string) \<Rightarrow> exn + string" where
  "safe_substitute template m =
     (case template of
        None \<Rightarrow> Inl TypeError
      | Some t \<Rightarrow> Inr (substitute m t))"

section \<open>The module galaxy.py\<close>

text \<open>
  Names keep the source's spelling without the leading underscore, which an Isabelle
  name cannot have: \<open>get_conf\<close> is \<^verbatim>\<open>_get_conf\<close>, \<open>get_ip\<close> is \<^verbatim>\<open>_get_ip\<close>,
  \<open>test_url\<close> is \<^verbatim>\<open>_test_url\<close>.
\<close>

subsection \<open>Module level (lines 1-22)\<close>

definition DEFAULT_USE_OBJECTS :: bool where
  "DEFAULT_USE_OBJECTS = True"

definition ENV_KEYS :: "string list" where
  "ENV_KEYS = [''DEBUG'', ''GALAXY_WEB_PORT'', ''NOTEBOOK_PASSWORD'', ''CORS_ORIGIN'',
               ''DOCKER_PORT'', ''API_KEY'', ''HISTORY_ID'', ''REMOTE_HOST'',
               ''GALAXY_URL'']"

text \<open>
  Line 15 binds the root logger to the global name \<^verbatim>\<open>tlog\<close>. The functions below call
  \<^verbatim>\<open>log.debug(...)\<close> (lines 43 and 57); no statement of the module binds the name
  \<^verbatim>\<open>log\<close> and it is no builtin, so evaluating it raises \<^verbatim>\<open>NameError\<close>, whatever the
  logging level.
\<close>

definition log_debug :: "string \<Rightarrow> exn + unit" where
  "log_debug msg = Inl (NameError ''log'')"

subsection \<open>The configuration bundle (lines 25-30)\<close>

text \<open>
  \<^verbatim>\<open>os.environ\<close> is a map from names to strings. The bundle is a dict whose values are
  strings or \<^verbatim>\<open>None\<close>; \<^verbatim>\<open>d[k]\<close> raises \<^verbatim>\<open>KeyError\<close> on a key the dict does not hold.
\<close>

type_synonym environ = "string \<rightharpoonup> string"

type_synonym conf = "string \<rightharpoonup> string option"

definition getitem :: "conf \<Rightarrow> string \<Rightarrow> exn + string option" where
  "getitem d k = (case d k of None \<Rightarrow> Inl (KeyError k) | Some v \<Rightarrow> Inr v)"

definition get_conf :: "environ \<Rightarrow> exn + conf" where
  "get_conf env =
     (let conf = fold (\<lambda>key conf. conf(lower key \<mapsto> env key)) ENV_KEYS Map.empty
      in case getitem conf ''galaxy_web_port'' of
           Inl e \<Rightarrow> Inl e
         | Inr port \<Rightarrow> Inr (conf(''galaxy_paster_port'' \<mapsto> port)))"

subsection \<open>The collaborators\<close>

text \<open>
  A connection handle is the client object built by one of the two bioblend
  constructors from a URL and a key.
\<close>

datatype galaxy_instance =
    ObjectsGalaxyInstance string "string option"
  | GalaxyInstance string "string option"

text \<open>
  What lies outside the module is a parameter. \<open>netstat\<close> is the outcome of the pipeline
  of lines 36-42 (\<^verbatim>\<open>netstat -nr | grep | awk\<close> and the read of its output): \<open>Inl c\<close>
  when \<^verbatim>\<open>subprocess.Popen\<close> or the read raises an exception of class \<open>c\<close>, \<open>Inr out\<close>
  when it yields the text \<open>out\<close> (possibly empty). \<open>new_instance\<close> is the constructor
  call, \<open>histories_get\<close> is \<^verbatim>\<open>gi.histories.get(history_id)\<close> and \<open>get_histories\<close> is
  \<^verbatim>\<open>gi.histories.get_histories()\<close>: \<open>Inl c\<close> when the call raises, \<open>Inr ()\<close> when it
  returns (the value read is not used by the module).
\<close>

record world =
  netstat :: "string + string"
  new_instance :: "galaxy_instance \<Rightarrow> string + unit"
  histories_get :: "galaxy_instance \<Rightarrow> string option \<Rightarrow> string + unit"
  get_histories :: "galaxy_instance \<Rightarrow> string + unit"

definition foreign :: "string + 'a \<Rightarrow> exn + 'a" where
  "foreign r = (case r of Inl c \<Rightarrow> Inl (Foreign c) | Inr v \<Rightarrow> Inr v)"

text \<open>Sequencing of statements that may raise.\<close>

definition and_then :: "exn + 'a \<Rightarrow> ('a \<Rightarrow> exn + 'b) \<Rightarrow> exn + 'b" where
  "and_then r f = (case r of Inl e \<Rightarrow> Inl e | Inr v \<Rightarrow> f v)"

subsection \<open>The gateway lookup (lines 33-44)\<close>

definition get_ip :: "world \<Rightarrow> exn + string" where
  "get_ip w =
     and_then (foreign (netstat w)) (\<lambda>galaxy_ip.
     and_then (log_debug ''Host IP determined to be %s'') (\<lambda>_.
     Inr galaxy_ip))"

subsection \<open>The validation probe (lines 47-60)\<close>

text \<open>\<open>test_url_try\<close> is the body of the \<^verbatim>\<open>try\<close> statement, lines 51-58.\<close>

definition test_url_try ::
  "world \<Rightarrow> string \<Rightarrow> string option \<Rightarrow> string option \<Rightarrow> bool \<Rightarrow> exn + galaxy_instance" where
  "test_url_try w url key history_id use_objects =
     and_then
       (if use_objects then
          (let gi = ObjectsGalaxyInstance url key in
           and_then (foreign (new_instance w gi)) (\<lambda>_.
           and_then (foreign (histories_get w gi history_id)) (\<lambda>_.
           Inr gi)))
        else
          (let gi = GalaxyInstance url key in
           and_then (foreign (new_instance w gi)) (\<lambda>_.
           and_then (foreign (get_histories w gi)) (\<lambda>_.
           Inr gi))))
       (\<lambda>gi.
     and_then (log_debug ''Galaxy URL %s is functional'') (\<lambda>_.
     Inr gi))"

text \<open>\<^verbatim>\<open>except Exception: return None\<close>.\<close>

definition test_url ::
  "world \<Rightarrow> string \<Rightarrow> string option \<Rightarrow> string option \<Rightarrow> bool \<Rightarrow> galaxy_instance option" where
  "test_url w url key history_id use_objects =
     (case test_url_try w url key history_id use_objects of
        Inl e \<Rightarrow> None
      | Inr gi \<Rightarrow> Some gi)"

subsection \<open>The resolver (lines 63-114)\<close>

text \<open>Line 86: the first candidate.\<close>

definition templated_url :: "string option \<Rightarrow> string \<Rightarrow> exn + string" where
  "templated_url galaxy_url galaxy_ip =
     safe_substitute galaxy_url [''DOCKER_HOST'' \<mapsto> galaxy_ip]"

text \<open>Lines 93-95: the application path.\<close>

definition app_path_of :: "string \<Rightarrow> string" where
  "app_path_of galaxy_url = join_empty (drop 3 (split CHR ''/'' (rstrip ''/'' galaxy_url)))"

text \<open>Lines 106-107: the second candidate.\<close>

definition built_galaxy_url :: "string \<Rightarrow> string option \<Rightarrow> string \<Rightarrow> string" where
  "built_galaxy_url galaxy_ip galaxy_port app_path =
     ''http://'' @ strip galaxy_ip @ '':'' @ percent_s galaxy_port @ ''/'' @ strip app_path"

definition failover_url :: "string \<Rightarrow> string option \<Rightarrow> string \<Rightarrow> string" where
  "failover_url galaxy_url galaxy_port galaxy_ip =
     rstrip ''/'' (built_galaxy_url galaxy_ip galaxy_port (app_path_of galaxy_url))"

text \<open>
  The result of the resolver is paired with the URLs handed to \<open>test_url\<close>, in the
  order of the calls, so that what was probed can be stated. \<open>failover\<close> is the part
  after the first probe has failed, lines 91-114.
\<close>

type_synonym resolution = "(exn + galaxy_instance) \<times> string list"

definition failover ::
  "world \<Rightarrow> conf \<Rightarrow> string \<Rightarrow> string option \<Rightarrow> string option \<Rightarrow> bool \<Rightarrow> resolution" where
  "failover w conf galaxy_ip key history_id use_objects =
     (case getitem conf ''galaxy_url'' of
        Inl e \<Rightarrow> (Inl e, [])
      | Inr None \<Rightarrow> (Inl AttributeError, [])
      | Inr (Some galaxy_url) \<Rightarrow>
          if ''galaxy_paster_port'' \<notin> dom conf then (Inl NoPort, [])
          else
            (case getitem conf ''galaxy_paster_port'' of
               Inl e \<Rightarrow> (Inl e, [])
             | Inr galaxy_port \<Rightarrow>
                 (let url = failover_url galaxy_url galaxy_port galaxy_ip in
                  case test_url w url key history_id use_objects of
                    Some gi \<Rightarrow> (Inr gi, [url])
                  | None \<Rightarrow> (Inl CouldNotConnect, [url]))))"

definition get_galaxy_connection :: "environ \<Rightarrow> world \<Rightarrow> bool \<Rightarrow> resolution" where
  "get_galaxy_connection env w use_objects =
     (case get_conf env of
        Inl e \<Rightarrow> (Inl e, [])
      | Inr conf \<Rightarrow>
     (case getitem conf ''history_id'' of
        Inl e \<Rightarrow> (Inl e, [])
      | Inr history_id \<Rightarrow>
     (case getitem conf ''api_key'' of
        Inl e \<Rightarrow> (Inl e, [])
      | Inr key \<Rightarrow>
     (case get_ip w of
        Inl e \<Rightarrow> (Inl e, [])
      | Inr galaxy_ip \<Rightarrow>
     (case getitem conf ''galaxy_url'' of
        Inl e \<Rightarrow> (Inl e, [])
      | Inr galaxy_url \<Rightarrow>
     (case templated_url galaxy_url galaxy_ip of
        Inl e \<Rightarrow> (Inl e, [])
      | Inr url \<Rightarrow>
     (case test_url w url key history_id use_objects of
        Some gi \<Rightarrow> (Inr gi, [url])
      | None \<Rightarrow>
          (case failover w conf galaxy_ip key history_id use_objects of
             (r, probed) \<Rightarrow> (r, url # probed)))))))))"

subsection \<open>Concrete environments\<close>

text \<open>
  A container started by Galaxy with a templated URL and no \<^verbatim>\<open>GALAXY_WEB_PORT\<close>, one
  whose URL names a host of its own, and one that also sets the port.
\<close>

definition env_templated :: environ where
  "env_templated = [''GALAXY_URL'' \<mapsto> ''http://$DOCKER_HOST:8080/galaxy'',
                    ''API_KEY'' \<mapsto> ''4d1b7a3e'', ''HISTORY_ID'' \<mapsto> ''f2db41e1fa331b3e'']"

definition env_no_port :: environ where
  "env_no_port = [''GALAXY_URL'' \<mapsto> ''http://oldhost:8080/galaxy/'',
                  ''API_KEY'' \<mapsto> ''4d1b7a3e'', ''HISTORY_ID'' \<mapsto> ''f2db41e1fa331b3e'']"

definition env_full :: environ where
  "env_full = [''GALAXY_URL'' \<mapsto> ''http://oldhost:8080/galaxy/'',
               ''GALAXY_WEB_PORT'' \<mapsto> ''8080'',
               ''API_KEY'' \<mapsto> ''4d1b7a3e'', ''HISTORY_ID'' \<mapsto> ''f2db41e1fa331b3e'']"

text \<open>
  \<open>world_up\<close>: the pipeline prints the gateway address (\<^verbatim>\<open>awk\<close> ends the line) and
  every client call succeeds. \<open>world_down\<close>: the same lookup, and every read is refused.
  \<open>world_no_netstat\<close>: \<^verbatim>\<open>netstat\<close> is not installed, so \<^verbatim>\<open>subprocess.Popen\<close> raises
  \<^verbatim>\<open>OSError\<close>.
\<close>

definition world_up :: world where
  "world_up = \<lparr> netstat = Inr (''172.17.0.1'' @ [CHR 0x0A]),
                 new_instance = (\<lambda>gi. Inr ()),
                 histories_get = (\<lambda>gi history_id. Inr ()),
                 get_histories = (\<lambda>gi. Inr ()) \<rparr>"

definition world_down :: world where
  "world_down = \<lparr> netstat = Inr (''172.17.0.1'' @ [CHR 0x0A]),
                   new_instance = (\<lambda>gi. Inr ()),
                   histories_get = (\<lambda>gi history_id. Inl ''ConnectionError''),
                   get_histories = (\<lambda>gi. Inl ''ConnectionError'') \<rparr>"

definition world_no_netstat :: world where
  "world_no_netstat = \<lparr> netstat = Inl ''OSError'',
                         new_instance = (\<lambda>gi. Inr ()),
                         histories_get = (\<lambda>gi history_id. Inr ()),
                         get_histories = (\<lambda>gi. Inr ()) \<rparr>"

section \<open>Properties\<close>

subsection \<open>Auxiliary facts\<close>

lemma get_ip_raises:
  "get_ip w = Inl (case netstat w of Inl c \<Rightarrow> Foreign c | Inr out \<Rightarrow> NameError ''log'')"
  by (simp add: get_ip_def and_then_def foreign_def log_debug_def split: sum.splits)

lemma test_url_try_raises: "\<exists>e. test_url_try w url key history_id use_objects = Inl e"
  by (simp add: test_url_try_def and_then_def foreign_def log_debug_def Let_def split: sum.splits)

lemma test_url_None: "test_url w url key history_id use_objects = None"
  using test_url_try_raises [of w url key history_id use_objects]
  by (auto simp: test_url_def)

lemma conf_of_environ:
  "get_conf env = Inr [''debug'' \<mapsto> env ''DEBUG'', ''galaxy_web_port'' \<mapsto> env ''GALAXY_WEB_PORT'',
     ''notebook_password'' \<mapsto> env ''NOTEBOOK_PASSWORD'', ''cors_origin'' \<mapsto> env ''CORS_ORIGIN'',
     ''docker_port'' \<mapsto> env ''DOCKER_PORT'', ''api_key'' \<mapsto> env ''API_KEY'',
     ''history_id'' \<mapsto> env ''HISTORY_ID'', ''remote_host'' \<mapsto> env ''REMOTE_HOST'',
     ''galaxy_url'' \<mapsto> env ''GALAXY_URL'', ''galaxy_paster_port'' \<mapsto> env ''GALAXY_WEB_PORT'']"
  by (simp add: get_conf_def ENV_KEYS_def lower_def lower_char_def getitem_def)

lemma resolver_stops_at_lookup:
  "get_galaxy_connection env w use_objects =
     (Inl (case netstat w of Inl c \<Rightarrow> Foreign c | Inr out \<Rightarrow> NameError ''log''), [])"
  by (simp add: get_galaxy_connection_def conf_of_environ getitem_def get_ip_raises)

lemma not_sublist_suffix: "\<not> sublist x t \<Longrightarrow> suffix s t \<Longrightarrow> \<not> sublist x s"
proof
  assume "\<not> sublist x t" and "suffix s t" and "sublist x s"
  then obtain zs ps ss where "t = zs @ s" and "s = ps @ x @ ss"
    by (auto simp: suffix_def sublist_def)
  then have "t = (zs @ ps) @ x @ ss" by simp
  then have "sublist x t" unfolding sublist_def by blast
  with \<open>\<not> sublist x t\<close> show False by simp
qed

lemma braced_SomeD:
  "braced cs = Some (name, rest) \<Longrightarrow> cs = CHR ''{'' # name @ CHR ''}'' # rest"
proof -
  assume a: "braced cs = Some (name, rest)"
  then obtain ds where cs: "cs = CHR ''{'' # ds"
    and dw: "dropWhile id_char ds = CHR ''}'' # rest" and tw: "name = takeWhile id_char ds"
    by (auto simp: braced_def split: list.splits if_splits)
  have "ds = takeWhile id_char ds @ dropWhile id_char ds" by simp
  with cs dw tw show ?thesis by simp
qed

lemma id_start_not_dollar: "id_start c \<Longrightarrow> c \<noteq> CHR ''$''"
  by (auto simp: id_start_def)

lemma id_start_not_brace: "\<not> id_start CHR ''{''"
  by (simp add: id_start_def)

lemma not_id_char_close: "\<not> id_char CHR ''}''"
  by (simp add: id_char_def id_start_def)

lemma takeWhile_identifier:
  "list_all P name \<Longrightarrow> s = [] \<or> \<not> P (hd s) \<Longrightarrow> takeWhile P (name @ s) = name"
  by (cases s) (auto simp: list_all_iff takeWhile_append2)

lemma dropWhile_identifier:
  "list_all P name \<Longrightarrow> s = [] \<or> \<not> P (hd s) \<Longrightarrow> dropWhile P (name @ s) = s"
  by (cases s) (auto simp: list_all_iff dropWhile_append2)

lemma substitute_named:
  assumes "is_identifier name" and "s = [] \<or> \<not> id_char (hd s)"
  shows "substitute m (CHR ''$'' # name @ s)
           = (case m name of Some v \<Rightarrow> v | None \<Rightarrow> CHR ''$'' # name) @ substitute m s"
proof -
  from assms(1) obtain a as where name: "name = a # as" and a: "id_start a"
    and all: "list_all id_char name"
    by (cases name) (auto simp: is_identifier_def)
  have tw: "takeWhile id_char (name @ s) = name" and dw: "dropWhile id_char (name @ s) = s"
    using all assms(2) by (rule takeWhile_identifier, rule dropWhile_identifier)
  have hd: "hd (name @ s) = a" and ne: "name @ s \<noteq> []" using name by simp_all
  have esc: "(name @ s \<noteq> [] \<and> hd (name @ s) = CHR ''$'') \<longleftrightarrow> False"
    using hd a id_start_not_dollar by auto
  have nm: "(name @ s \<noteq> [] \<and> id_start (hd (name @ s))) \<longleftrightarrow> True"
    using hd ne a by simp
  show ?thesis
    by (simp only: substitute.simps(2) [of m "CHR ''$''" "name @ s"] esc nm tw dw
        if_True if_False not_not refl simp_thms)
qed

lemma braced_identifier:
  assumes "is_identifier name"
  shows "braced (CHR ''{'' # name @ CHR ''}'' # s) = Some (name, s)"
proof -
  from assms obtain a as where name: "name = a # as" and a: "id_start a"
    and all: "list_all id_char name"
    by (cases name) (auto simp: is_identifier_def)
  have stop: "CHR ''}'' # s = [] \<or> \<not> id_char (hd (CHR ''}'' # s))"
    by (simp add: not_id_char_close)
  have tw: "takeWhile id_char (name @ CHR ''}'' # s) = name"
    and dw: "dropWhile id_char (name @ CHR ''}'' # s) = CHR ''}'' # s"
    using all stop by (rule takeWhile_identifier, rule dropWhile_identifier)
  have "hd (name @ CHR ''}'' # s) = a" and "name @ CHR ''}'' # s \<noteq> []" using name by simp_all
  with a tw dw show ?thesis by (simp add: braced_def)
qed

lemma substitute_braced:
  assumes "is_identifier name"
  shows "substitute m (CHR ''$'' # CHR ''{'' # name @ CHR ''}'' # s)
           = (case m name of Some v \<Rightarrow> v | None \<Rightarrow> CHR ''$'' # CHR ''{'' # name @ ''}'') @ substitute m s"
proof -
  let ?cs = "CHR ''{'' # name @ CHR ''}'' # s"
  have esc: "(?cs \<noteq> [] \<and> hd ?cs = CHR ''$'') \<longleftrightarrow> False" by simp
  have nm: "(?cs \<noteq> [] \<and> id_start (hd ?cs)) \<longleftrightarrow> False"
    by (simp add: id_start_not_brace)
  show ?thesis
    by (simp only: substitute.simps(2) [of m "CHR ''$''" ?cs] esc nm
        braced_identifier [OF assms, of s] if_True if_False not_not refl simp_thms
        option.case prod.case)
qed

lemma braced_Some_identifier:
  "braced cs = Some (name, rest) \<Longrightarrow> is_identifier name"
proof -
  assume "braced cs = Some (name, rest)"
  then obtain ds where ds: "ds \<noteq> []" "id_start (hd ds)" and tw: "name = takeWhile id_char ds"
    by (auto simp: braced_def split: list.splits if_splits)
  then obtain d ds' where d: "ds = d # ds'" by (cases ds) auto
  with ds have "id_char d" by (simp add: id_char_def)
  with d tw ds show ?thesis
    by (auto simp: is_identifier_def list_all_iff dest: set_takeWhileD)
qed

lemma substitute_lone:
  assumes "s = [] \<or> (hd s \<noteq> CHR ''$'' \<and> \<not> id_start (hd s)
             \<and> \<not> (\<exists>name r. is_identifier name \<and> s = ''{'' @ name @ ''}'' @ r))"
  shows "substitute m (CHR ''$'' # s) = CHR ''$'' # substitute m s"
proof (cases "s = []")
  case True
  then show ?thesis by (simp add: braced_def)
next
  case False
  with assms have h: "hd s \<noteq> CHR ''$''" "\<not> id_start (hd s)"
    and nb: "\<not> (\<exists>name r. is_identifier name \<and> s = ''{'' @ name @ ''}'' @ r)" by auto
  have "braced s = None"
  proof (cases "braced s")
    case (Some p)
    obtain name r where p: "p = (name, r)" by (cases p)
    with Some have "is_identifier name" and "s = CHR ''{'' # name @ CHR ''}'' # r"
      by (auto dest: braced_Some_identifier braced_SomeD)
    with nb show ?thesis by auto
  qed simp
  with h show ?thesis by simp
qed

lemma templated_url_Some:
  "templated_url (Some t) ip = Inr (substitute [''DOCKER_HOST'' \<mapsto> ip] t)"
  by (simp add: templated_url_def safe_substitute_def)

lemma templated_url_keeps_newline:
  "templated_url (Some ''http://$DOCKER_HOST:8080/galaxy'') (''172.17.0.1'' @ [CHR 0x0A])
     = Inr (''http://172.17.0.1'' @ [CHR 0x0A] @ '':8080/galaxy'')"
  by (simp add: templated_url_def safe_substitute_def id_start_def id_char_def)

lemma substitute_unchanged:
  "\<not> sublist ''$$'' t \<Longrightarrow> \<not> sublist (CHR ''$'' # k) t \<Longrightarrow> \<not> sublist (''${'' @ k @ ''}'') t
     \<Longrightarrow> substitute [k \<mapsto> v] t = t"
proof (induction "[k \<mapsto> v]" t rule: substitute.induct)
  case 1
  show ?case by simp
next
  case (2 c cs)
  note IH = "2.hyps" and ns = "2.prems"
  have tail: "substitute [k \<mapsto> v] s = s"
    if "suffix s (c # cs)"
      and "\<not> sublist ''$$'' s \<Longrightarrow> \<not> sublist (CHR ''$'' # k) s \<Longrightarrow>
           \<not> sublist (''${'' @ k @ ''}'') s \<Longrightarrow> substitute [k \<mapsto> v] s = s" for s
    using that(2) ns not_sublist_suffix [OF _ that(1)] by blast
  show ?case
  proof (cases "c \<noteq> CHR ''$''")
    case True
    have "substitute [k \<mapsto> v] cs = cs"
      by (rule tail) (simp_all add: suffix_ConsI IH(1) [OF True])
    with True show ?thesis by simp
  next
    case dollar: False
    then have c: "c = CHR ''$''" by simp
    show ?thesis
    proof (cases "cs \<noteq> [] \<and> hd cs = CHR ''$''")
      case True
      then obtain ds where "cs = CHR ''$'' # ds" by (cases cs) auto
      with c have "sublist ''$$'' (c # cs)" by (simp add: sublist_Cons_right)
      with ns show ?thesis by simp
    next
      case False
      then have no_escape: "(cs \<noteq> [] \<and> hd cs = CHR ''$'') \<longleftrightarrow> False" by blast
      note ne = False
      show ?thesis
      proof (cases "cs \<noteq> [] \<and> id_start (hd cs)")
        case True
        then have is_name: "(cs \<noteq> [] \<and> id_start (hd cs)) \<longleftrightarrow> True" by blast
        let ?name = "takeWhile id_char cs" and ?rest = "dropWhile id_char cs"
        have neq: "?name \<noteq> k"
        proof
          assume eq: "?name = k"
          have "c # cs = [] @ (CHR ''$'' # ?name) @ ?rest" using c by simp
          then have "sublist (CHR ''$'' # ?name) (c # cs)" unfolding sublist_def by blast
          with eq ns show False by simp
        qed
        have "substitute [k \<mapsto> v] ?rest = ?rest"
          by (rule tail) (simp_all add: suffix_ConsI suffix_dropWhile IH(3) [OF dollar ne True])
        moreover have "substitute [k \<mapsto> v] (c # cs)
            = (CHR ''$'' # ?name) @ substitute [k \<mapsto> v] ?rest"
          using neq by (simp add: c no_escape is_name)
        ultimately show ?thesis using c by simp
      next
        case False
        then have no_name: "(cs \<noteq> [] \<and> id_start (hd cs)) \<longleftrightarrow> False" by blast
        note nn = False
        show ?thesis
        proof (cases "braced cs")
          case None
          have "substitute [k \<mapsto> v] cs = cs"
            by (rule tail) (simp_all add: suffix_ConsI IH(4) [OF dollar ne nn None])
          moreover have "substitute [k \<mapsto> v] (c # cs) = CHR ''$'' # substitute [k \<mapsto> v] cs"
            by (simp add: c no_escape no_name None)
          ultimately show ?thesis using c by simp
        next
          case (Some p)
          obtain name rest where p: "p = (name, rest)" by (cases p)
          with Some have br: "braced cs = Some (name, rest)" by simp
          then have cs: "cs = CHR ''{'' # name @ CHR ''}'' # rest"
            by (rule braced_SomeD)
          have neq: "name \<noteq> k"
          proof
            assume "name = k"
            with cs c have "c # cs = [] @ (''${'' @ k @ ''}'') @ rest" by simp
            then have "sublist (''${'' @ k @ ''}'') (c # cs)" unfolding sublist_def by blast
            with ns show False by simp
          qed
          have "suffix rest (c # cs)"
            by (subst cs) (rule suffixI [of _ "c # CHR ''{'' # name @ ''}''"], simp)
          then have "substitute [k \<mapsto> v] rest = rest"
            by (rule tail) (simp_all add: IH(5) [OF dollar ne nn Some p [symmetric]])
          moreover have "substitute [k \<mapsto> v] (c # cs)
              = (CHR ''$'' # CHR ''{'' # name @ ''}'') @ substitute [k \<mapsto> v] rest"
            using neq by (simp add: c no_escape no_name br)
          ultimately show ?thesis using c cs by simp
        qed
      qed
    qed
  qed
qed

lemma failover_never_NoPort:
  "get_conf env = Inr conf \<Longrightarrow> fst (failover w conf galaxy_ip key history_id use_objects) \<noteq> Inl NoPort"
  by (auto simp: conf_of_environ failover_def getitem_def test_url_None domIff split: option.splits)

lemma failover_probes:
  "conf ''galaxy_url'' = Some (Some u) \<Longrightarrow> conf ''galaxy_paster_port'' = Some port \<Longrightarrow>
   failover w conf galaxy_ip key history_id use_objects =
     (Inl CouldNotConnect, [failover_url u port galaxy_ip])"
  by (simp add: failover_def getitem_def test_url_None domIff)

subsection \<open>The configuration bundle\<close>

text \<open>
  Claim C8. For every process environment, \<^verbatim>\<open>_get_conf\<close> returns without raising, and
  the bundle has an entry under the lower-cased name of each key of \<^verbatim>\<open>ENV_KEYS\<close>: the
  value of the variable, or \<^verbatim>\<open>None\<close> when the environment does not set it. The
  entry \<^verbatim>\<open>galaxy_paster_port\<close> repeats that of \<^verbatim>\<open>GALAXY_WEB_PORT\<close>.
\<close>

theorem get_conf_total:
  "\<exists>conf. get_conf env = Inr conf
      \<and> (\<forall>key \<in> set ENV_KEYS. conf (lower key) = Some (env key))
      \<and> conf ''galaxy_paster_port'' = Some (env ''GALAXY_WEB_PORT'')"
  by (simp add: conf_of_environ ENV_KEYS_def lower_def lower_char_def)

theorem get_conf_total_witness:
  "''API_KEY'' \<in> set ENV_KEYS \<and> ''DEBUG'' \<in> set ENV_KEYS
   \<and> (\<exists>conf. get_conf env_templated = Inr conf
         \<and> conf ''api_key'' = Some (Some ''4d1b7a3e'') \<and> conf ''debug'' = Some None)"
proof -
  obtain conf where c: "get_conf env_templated = Inr conf"
    and all: "\<forall>key \<in> set ENV_KEYS. conf (lower key) = Some (env_templated key)"
    using get_conf_total [of env_templated] by blast
  have k: "''API_KEY'' \<in> set ENV_KEYS" "''DEBUG'' \<in> set ENV_KEYS"
    by (simp_all add: ENV_KEYS_def)
  from all k have "conf (lower ''API_KEY'') = Some (env_templated ''API_KEY'')"
    and "conf (lower ''DEBUG'') = Some (env_templated ''DEBUG'')"
    by blast+
  then have "conf ''api_key'' = Some (Some ''4d1b7a3e'')" and "conf ''debug'' = Some None"
    by (simp_all add: lower_def lower_char_def env_templated_def)
  with c k show ?thesis by blast
qed

subsection \<open>The validation probe\<close>

text \<open>
  Claim C10. With \<^verbatim>\<open>use_objects=False\<close> the probe does not depend on the history
  identifier: for the same world, URL and key, two identifiers give the same result,
  both of the \<^verbatim>\<open>try\<close> body and of the probe. The direct client is only asked to list
  the histories.
\<close>

theorem test_url_direct_ignores_history_id:
  "test_url w url key history_id False = test_url w url key history_id' False
   \<and> test_url_try w url key history_id False = test_url_try w url key history_id' False"
  by (simp add: test_url_def test_url_try_def)

text \<open>
  Claim C3. The probe turns every exception into \<^verbatim>\<open>None\<close>, and the claim adds that a
  successful read returns the handle. The code does not: after the read, line 57
  evaluates the unbound name \<^verbatim>\<open>log\<close> inside the \<^verbatim>\<open>try\<close>, the \<^verbatim>\<open>NameError\<close> is caught by
  line 59, and the probe returns \<^verbatim>\<open>None\<close>. Here the constructor and the listing both
  succeed, the \<^verbatim>\<open>try\<close> body ends in \<^verbatim>\<open>NameError\<close>, and the result is \<^verbatim>\<open>None\<close>.
\<close>

theorem test_url_successful_read_returns_None:
  "new_instance world_up (GalaxyInstance ''http://172.17.0.1:8080/galaxy'' (Some ''4d1b7a3e'')) = Inr ()
   \<and> get_histories world_up (GalaxyInstance ''http://172.17.0.1:8080/galaxy'' (Some ''4d1b7a3e'')) = Inr ()
   \<and> test_url_try world_up ''http://172.17.0.1:8080/galaxy'' (Some ''4d1b7a3e'')
        (Some ''f2db41e1fa331b3e'') False = Inl (NameError ''log'')
   \<and> test_url world_up ''http://172.17.0.1:8080/galaxy'' (Some ''4d1b7a3e'')
        (Some ''f2db41e1fa331b3e'') False = None"
  by (simp add: test_url_def test_url_try_def and_then_def foreign_def log_debug_def world_up_def)

subsection \<open>The gateway lookup\<close>

text \<open>
  Claim C4 says that the lookup never raises. It has no handler: with \<^verbatim>\<open>netstat\<close>
  missing, \<^verbatim>\<open>subprocess.Popen\<close> raises \<^verbatim>\<open>OSError\<close> and \<^verbatim>\<open>_get_ip\<close> raises it too.
\<close>

theorem lookup_failure_counterexample:
  "get_ip world_no_netstat = Inl (Foreign ''OSError'')"
  by (simp add: get_ip_def and_then_def foreign_def world_no_netstat_def)

text \<open>
  Claim C4, as amended. When the pipeline of lines 36-42 raises an exception,
  \<^verbatim>\<open>_get_ip\<close> raises that exception to its caller; it returns no address then.
\<close>

theorem get_ip_propagates_failure:
  "netstat w = Inl c \<Longrightarrow> get_ip w = Inl (Foreign c)"
  by (simp add: get_ip_def and_then_def foreign_def)

theorem get_ip_propagates_failure_witness:
  "netstat world_no_netstat = Inl ''OSError'' \<and> get_ip world_no_netstat = Inl (Foreign ''OSError'')"
proof -
  have h: "netstat world_no_netstat = Inl ''OSError''" by (simp add: world_no_netstat_def)
  from get_ip_propagates_failure [OF h] h show ?thesis by simp
qed

subsection \<open>The two candidate URLs\<close>

text \<open>
  Claim C6 says that a template without placeholder is left unchanged. The escape
  \<^verbatim>\<open>$$\<close> is no placeholder, and \<^verbatim>\<open>safe_substitute\<close> rewrites it to one \<^verbatim>\<open>$\<close>.
\<close>

theorem first_candidate_escape_counterexample:
  "\<not> sublist ''$DOCKER_HOST'' ''http://oldhost:8080/a$$b''
   \<and> \<not> sublist ''${DOCKER_HOST}'' ''http://oldhost:8080/a$$b''
   \<and> templated_url (Some ''http://oldhost:8080/a$$b'') ''172.17.0.1'' = Inr ''http://oldhost:8080/a$b''
   \<and> ''http://oldhost:8080/a$b'' \<noteq> ''http://oldhost:8080/a$$b''"
  by (simp add: templated_url_def safe_substitute_def sublist_Cons_right)

text \<open>
  Claim C6, as amended. The first candidate is the template read from left to right:
  a character other than \<^verbatim>\<open>$\<close> is copied; the escape \<^verbatim>\<open>$$\<close> becomes one \<^verbatim>\<open>$\<close>;
  \<^verbatim>\<open>$name\<close>, with the longest identifier after the \<^verbatim>\<open>$\<close> as name, and \<^verbatim>\<open>${name}\<close> are
  replaced by the gateway address when the name is \<^verbatim>\<open>DOCKER_HOST\<close> and copied
  otherwise; any other \<^verbatim>\<open>$\<close> is copied. In each case the text after it is read in the
  same way, so the address is substituted for a placeholder wherever it stands. A
  template that contains none of \<^verbatim>\<open>$$\<close>, \<^verbatim>\<open>$DOCKER_HOST\<close> and \<^verbatim>\<open>${DOCKER_HOST}\<close> is left
  unchanged, and the template \<^verbatim>\<open>http://$DOCKER_HOST:8080/galaxy\<close> with the address
  \<^verbatim>\<open>172.17.0.1\<close> gives \<^verbatim>\<open>http://172.17.0.1:8080/galaxy\<close>.
\<close>

theorem templated_url_scan:
  "templated_url (Some []) ip = Inr []
   \<and> (c \<noteq> CHR ''$'' \<longrightarrow>
        (\<exists>rest. templated_url (Some s) ip = Inr rest
           \<and> templated_url (Some (c # s)) ip = Inr (c # rest)))
   \<and> (\<exists>rest. templated_url (Some s) ip = Inr rest
           \<and> templated_url (Some (''$$'' @ s)) ip = Inr (''$'' @ rest))
   \<and> (is_identifier name \<and> (s = [] \<or> \<not> id_char (hd s)) \<longrightarrow>
        (\<exists>rest. templated_url (Some s) ip = Inr rest
           \<and> templated_url (Some (''$'' @ name @ s)) ip
               = Inr ((if name = ''DOCKER_HOST'' then ip else ''$'' @ name) @ rest)))
   \<and> (is_identifier name \<longrightarrow>
        (\<exists>rest. templated_url (Some s) ip = Inr rest
           \<and> templated_url (Some (''${'' @ name @ ''}'' @ s)) ip
               = Inr ((if name = ''DOCKER_HOST'' then ip else ''${'' @ name @ ''}'') @ rest)))
   \<and> (s = [] \<or> (hd s \<noteq> CHR ''$'' \<and> \<not> id_start (hd s)
                  \<and> \<not> (\<exists>n r. is_identifier n \<and> s = ''{'' @ n @ ''}'' @ r)) \<longrightarrow>
        (\<exists>rest. templated_url (Some s) ip = Inr rest
           \<and> templated_url (Some (''$'' @ s)) ip = Inr (''$'' @ rest)))
   \<and> (\<not> sublist ''$$'' t \<and> \<not> sublist ''$DOCKER_HOST'' t \<and> \<not> sublist ''${DOCKER_HOST}'' t \<longrightarrow>
        templated_url (Some t) ip = Inr t)
   \<and> templated_url (Some ''http://$DOCKER_HOST:8080/galaxy'') ''172.17.0.1''
        = Inr ''http://172.17.0.1:8080/galaxy''
   \<and> templated_url (Some ''http://$USER@$DOCKER_HOST:8080/galaxy'') ''172.17.0.1''
        = Inr ''http://$USER@172.17.0.1:8080/galaxy''
   \<and> templated_url (Some ''http://oldhost/a$$b/$DOCKER_HOST'') ''172.17.0.1''
        = Inr ''http://oldhost/a$b/172.17.0.1''"
proof -
  let ?m = "[''DOCKER_HOST'' \<mapsto> ip]"
  have e1: "substitute ?m [] = []" by simp
  have e2: "substitute ?m (c # s) = c # substitute ?m s" if "c \<noteq> CHR ''$''"
    using that by simp
  have e3: "substitute ?m (''$$'' @ s) = ''$'' @ substitute ?m s" by simp
  have e4: "substitute ?m (''$'' @ name @ s)
      = (if name = ''DOCKER_HOST'' then ip else ''$'' @ name) @ substitute ?m s"
    if "is_identifier name" and "s = [] \<or> \<not> id_char (hd s)"
    using substitute_named [OF that, of ?m] by simp
  have e5: "substitute ?m (''${'' @ name @ ''}'' @ s)
      = (if name = ''DOCKER_HOST'' then ip else ''${'' @ name @ ''}'') @ substitute ?m s"
    if "is_identifier name"
    using substitute_braced [OF that, of ?m s] by simp
  have e6: "substitute ?m (''$'' @ s) = ''$'' @ substitute ?m s"
    if "s = [] \<or> (hd s \<noteq> CHR ''$'' \<and> \<not> id_start (hd s)
                  \<and> \<not> (\<exists>n r. is_identifier n \<and> s = ''{'' @ n @ ''}'' @ r))"
    using substitute_lone [OF that, of ?m] by simp
  have e7: "substitute ?m t = t"
    if "\<not> sublist ''$$'' t \<and> \<not> sublist ''$DOCKER_HOST'' t \<and> \<not> sublist ''${DOCKER_HOST}'' t"
    using that substitute_unchanged [of t "''DOCKER_HOST''" ip] by simp
  have c1: "templated_url (Some ''http://$DOCKER_HOST:8080/galaxy'') ''172.17.0.1''
        = Inr ''http://172.17.0.1:8080/galaxy''"
    and c2: "templated_url (Some ''http://$USER@$DOCKER_HOST:8080/galaxy'') ''172.17.0.1''
        = Inr ''http://$USER@172.17.0.1:8080/galaxy''"
    and c3: "templated_url (Some ''http://oldhost/a$$b/$DOCKER_HOST'') ''172.17.0.1''
        = Inr ''http://oldhost/a$b/172.17.0.1''"
    by (simp_all add: templated_url_Some id_start_def id_char_def braced_def)
  show ?thesis
    unfolding templated_url_Some [of _ ip]
    using e1 e2 e3 e4 e5 e6 e7 c1 [unfolded templated_url_Some] c2 [unfolded templated_url_Some]
      c3 [unfolded templated_url_Some]
    by (simp only: templated_url_Some simp_thms sum.inject) blast
qed

theorem templated_url_scan_witness:
  "CHR ''h'' \<noteq> CHR ''$''
   \<and> templated_url (Some ''h:8080/galaxy'') ''10.0.0.1'' = Inr ''h:8080/galaxy''
   \<and> is_identifier ''DOCKER_HOST'' \<and> is_identifier ''USER'' \<and> \<not> id_char (hd '':8080/galaxy'')
   \<and> templated_url (Some ''$DOCKER_HOST:8080/galaxy'') ''10.0.0.1'' = Inr ''10.0.0.1:8080/galaxy''
   \<and> templated_url (Some ''$USER:8080/galaxy'') ''10.0.0.1'' = Inr ''$USER:8080/galaxy''
   \<and> templated_url (Some ''${DOCKER_HOST}:8080/galaxy'') ''10.0.0.1'' = Inr ''10.0.0.1:8080/galaxy''
   \<and> templated_url (Some ''${USER}:8080/galaxy'') ''10.0.0.1'' = Inr ''${USER}:8080/galaxy''
   \<and> hd '':8080/galaxy'' \<noteq> CHR ''$'' \<and> \<not> id_start (hd '':8080/galaxy'')
   \<and> \<not> (\<exists>n r. is_identifier n \<and> '':8080/galaxy'' = ''{'' @ n @ ''}'' @ r)
   \<and> templated_url (Some ''$:8080/galaxy'') ''10.0.0.1'' = Inr ''$:8080/galaxy''
   \<and> \<not> sublist ''$$'' ''http://oldhost:8080/galaxy''
   \<and> \<not> sublist ''$DOCKER_HOST'' ''http://oldhost:8080/galaxy''
   \<and> \<not> sublist ''${DOCKER_HOST}'' ''http://oldhost:8080/galaxy''
   \<and> templated_url (Some ''http://oldhost:8080/galaxy'') ''10.0.0.1'' = Inr ''http://oldhost:8080/galaxy''"
proof -
  have h1: "CHR ''h'' \<noteq> CHR ''$''" by simp
  have h2: "is_identifier ''DOCKER_HOST''" "is_identifier ''USER''"
    by (simp_all add: is_identifier_def id_start_def id_char_def)
  have h3: "\<not> id_char (hd '':8080/galaxy'')" "hd '':8080/galaxy'' \<noteq> CHR ''$''"
    "\<not> id_start (hd '':8080/galaxy'')"
    by (simp_all add: id_char_def id_start_def)
  have h4: "\<not> (\<exists>n r. is_identifier n \<and> '':8080/galaxy'' = ''{'' @ n @ ''}'' @ r)" by simp
  have h5: "\<not> sublist ''$$'' ''http://oldhost:8080/galaxy''
     \<and> \<not> sublist ''$DOCKER_HOST'' ''http://oldhost:8080/galaxy''
     \<and> \<not> sublist ''${DOCKER_HOST}'' ''http://oldhost:8080/galaxy''"
    by (simp add: sublist_Cons_right)
  have p: "templated_url (Some '':8080/galaxy'') ''10.0.0.1'' = Inr '':8080/galaxy''"
    by (simp add: templated_url_def safe_substitute_def)
  note d = templated_url_scan [where ip = "''10.0.0.1''" and c = "CHR ''h''" and s = "'':8080/galaxy''"
      and name = "''DOCKER_HOST''" and t = "''http://oldhost:8080/galaxy''"]
  note u = templated_url_scan [where ip = "''10.0.0.1''" and c = "CHR ''h''" and s = "'':8080/galaxy''"
      and name = "''USER''" and t = "''http://oldhost:8080/galaxy''"]
  from d h1 p have a: "templated_url (Some ''h:8080/galaxy'') ''10.0.0.1'' = Inr ''h:8080/galaxy''"
    by auto
  from d h2 h3 p have b: "templated_url (Some ''$DOCKER_HOST:8080/galaxy'') ''10.0.0.1'' = Inr ''10.0.0.1:8080/galaxy''"
    and c: "templated_url (Some ''${DOCKER_HOST}:8080/galaxy'') ''10.0.0.1'' = Inr ''10.0.0.1:8080/galaxy''"
    by auto
  from u h2 h3 p have b': "templated_url (Some ''$USER:8080/galaxy'') ''10.0.0.1'' = Inr ''$USER:8080/galaxy''"
    and c': "templated_url (Some ''${USER}:8080/galaxy'') ''10.0.0.1'' = Inr ''${USER}:8080/galaxy''"
    by auto
  from d h3 h4 p have e: "templated_url (Some ''$:8080/galaxy'') ''10.0.0.1'' = Inr ''$:8080/galaxy''"
    by auto
  from d h5 have f: "templated_url (Some ''http://oldhost:8080/galaxy'') ''10.0.0.1'' = Inr ''http://oldhost:8080/galaxy''"
    by blast
  from h1 h2 h3 h4 h5 a b c b' c' e f show ?thesis by blast
qed

text \<open>
  Claim C7. The second candidate of the claim's scenario is as the claim gives it:
  template \<^verbatim>\<open>http://oldhost:8080/galaxy/\<close>, port \<^verbatim>\<open>8080\<close>, gateway \<^verbatim>\<open>172.17.0.1\<close>.
  The path suffix is kept only when it has one segment: line 95 joins the segments
  with the empty string, so the path \<^verbatim>\<open>galaxy/sub\<close> becomes \<^verbatim>\<open>galaxysub\<close>.
\<close>

theorem failover_url_joins_path_segments:
  "failover_url ''http://oldhost:8080/galaxy/'' (Some ''8080'') ''172.17.0.1''
     = ''http://172.17.0.1:8080/galaxy''
   \<and> failover_url ''http://oldhost:8080/galaxy/sub/'' (Some ''8080'') ''172.17.0.1''
     = ''http://172.17.0.1:8080/galaxysub''"
  by (simp add: failover_url_def built_galaxy_url_def app_path_of_def join_empty_def
      rstrip_def strip_def lstrip_def whitespace_def percent_s_def)

subsection \<open>The resolver\<close>

text \<open>
  Claim C1. The lookup yields the gateway address and every read is refused, so both
  candidates fail validation and the claim expects the error of line 114. The
  resolver raises \<^verbatim>\<open>NameError\<close> at line 43, which is neither of the two terminal errors,
  and probes nothing. Lines 91-114, run on the bundle of this environment, do end in
  the error of line 114 after probing the second candidate.
\<close>

theorem both_candidates_refused_raises_NameError:
  "histories_get world_down gi history_id = Inl ''ConnectionError''
   \<and> get_histories world_down gi = Inl ''ConnectionError''
   \<and> get_galaxy_connection env_full world_down DEFAULT_USE_OBJECTS = (Inl (NameError ''log''), [])
   \<and> NameError ''log'' \<noteq> CouldNotConnect \<and> NameError ''log'' \<noteq> NoPort
   \<and> (\<exists>conf. get_conf env_full = Inr conf
        \<and> failover world_down conf (''172.17.0.1'' @ [CHR 0x0A]) (Some ''4d1b7a3e'')
              (Some ''f2db41e1fa331b3e'') DEFAULT_USE_OBJECTS
            = (Inl CouldNotConnect, [''http://172.17.0.1:8080/galaxy'']))"
  by (simp add: resolver_stops_at_lookup world_down_def env_full_def conf_of_environ
      failover_probes failover_url_def built_galaxy_url_def app_path_of_def join_empty_def
      rstrip_def strip_def lstrip_def whitespace_def percent_s_def)

text \<open>
  Claim C5. The template validates (every client call of \<open>world_up\<close> succeeds), and the
  claim expects the handle of the first candidate. The resolver raises \<^verbatim>\<open>NameError\<close>
  at line 43, inside \<^verbatim>\<open>_get_ip\<close>, and probes nothing.
\<close>

theorem templated_success_not_returned:
  "new_instance world_up gi = Inr ()
   \<and> histories_get world_up gi history_id = Inr ()
   \<and> get_galaxy_connection env_templated world_up DEFAULT_USE_OBJECTS
       = (Inl (NameError ''log''), [])"
  by (simp add: resolver_stops_at_lookup world_up_def)

text \<open>
  Claim C2. \<^verbatim>\<open>GALAXY_WEB_PORT\<close> is unset and every read is refused; the claim expects
  the error of line 100. The resolver raises \<^verbatim>\<open>NameError\<close> at line 43. The part after
  the first probe, run on the bundle of this environment, does not raise the error of
  line 100 either: it probes a URL whose port is the text \<^verbatim>\<open>None\<close> and ends in the
  error of line 114.
\<close>

theorem no_port_not_raised:
  "env_no_port ''GALAXY_WEB_PORT'' = None
   \<and> get_galaxy_connection env_no_port world_down False = (Inl (NameError ''log''), [])
   \<and> (\<exists>conf. get_conf env_no_port = Inr conf
        \<and> failover world_down conf (''172.17.0.1'' @ [CHR 0x0A]) (Some ''4d1b7a3e'')
              (Some ''f2db41e1fa331b3e'') False
            = (Inl CouldNotConnect, [''http://172.17.0.1:None/galaxy'']))"
  by (simp add: resolver_stops_at_lookup world_down_def env_no_port_def conf_of_environ
      failover_probes failover_url_def built_galaxy_url_def app_path_of_def join_empty_def
      rstrip_def strip_def lstrip_def whitespace_def percent_s_def)

text \<open>
  Claim C9. For every environment the bundle holds the key \<^verbatim>\<open>galaxy_paster_port\<close>,
  with the value of \<^verbatim>\<open>GALAXY_WEB_PORT\<close> or \<^verbatim>\<open>None\<close>, and lines 91-114 run on it never
  raise the error of line 100. With the port unset they probe a URL whose port is the
  text \<^verbatim>\<open>None\<close>, as the claim says; but the resolver does not reach them: on the same
  input it raises \<^verbatim>\<open>NameError\<close> at line 43 and probes nothing.
\<close>

theorem unset_port_fallback_not_reached:
  "(\<exists>conf. get_conf env = Inr conf
        \<and> ''galaxy_paster_port'' \<in> dom conf
        \<and> conf ''galaxy_paster_port'' = Some (env ''GALAXY_WEB_PORT'')
        \<and> fst (failover w conf galaxy_ip key history_id use_objects) \<noteq> Inl NoPort)
   \<and> env_no_port ''GALAXY_WEB_PORT'' = None
   \<and> (\<exists>conf. get_conf env_no_port = Inr conf
        \<and> conf ''galaxy_paster_port'' = Some None
        \<and> failover world_down conf (''172.17.0.1'' @ [CHR 0x0A]) (Some ''4d1b7a3e'')
              (Some ''f2db41e1fa331b3e'') True
            = (Inl CouldNotConnect, [''http://172.17.0.1:None/galaxy'']))
   \<and> get_galaxy_connection env_no_port world_down True = (Inl (NameError ''log''), [])"
proof -
  obtain conf where c: "get_conf env = Inr conf" and
    p: "conf ''galaxy_paster_port'' = Some (env ''GALAXY_WEB_PORT'')"
    by (simp add: conf_of_environ)
  have "fst (failover w conf galaxy_ip key history_id use_objects) \<noteq> Inl NoPort"
    using c by (rule failover_never_NoPort)
  with c p have general: "\<exists>conf. get_conf env = Inr conf
        \<and> ''galaxy_paster_port'' \<in> dom conf
        \<and> conf ''galaxy_paster_port'' = Some (env ''GALAXY_WEB_PORT'')
        \<and> fst (failover w conf galaxy_ip key history_id use_objects) \<noteq> Inl NoPort"
    by (auto simp: domIff)
  have here: "env_no_port ''GALAXY_WEB_PORT'' = None
   \<and> (\<exists>conf. get_conf env_no_port = Inr conf
        \<and> conf ''galaxy_paster_port'' = Some None
        \<and> failover world_down conf (''172.17.0.1'' @ [CHR 0x0A]) (Some ''4d1b7a3e'')
              (Some ''f2db41e1fa331b3e'') True
            = (Inl CouldNotConnect, [''http://172.17.0.1:None/galaxy'']))
   \<and> get_galaxy_connection env_no_port world_down True = (Inl (NameError ''log''), [])"
    by (simp add: resolver_stops_at_lookup world_down_def env_no_port_def conf_of_environ
      failover_probes failover_url_def built_galaxy_url_def app_path_of_def join_empty_def
      rstrip_def strip_def lstrip_def whitespace_def percent_s_def)
  from general here show ?thesis by blast
qed

end
